theory Spec2Isabelle
  imports Main "HOL-Library.Sublist"
begin

section \<open>Type references (utils.ts)\<close>

text \<open>
  The argument of \<open>reduceTypeName\<close> and \<open>reduceListType\<close> is declared as
  \<^verbatim>\<open>string | NameNode | NonNullTypeNode | NamedTypeNode | ListTypeNode\<close>.
  Every node carries a \<open>kind\<close>; the functions look at \<open>typeof type\<close> first and at
  \<open>type.kind\<close> afterwards, and descend through one field per kind
  (\<open>value\<close>, \<open>name\<close>, \<open>type\<close>). One constructor stands for each branch, and
  \<open>OtherNode k\<close> for an object whose kind \<open>k\<close> is none of the four tested ones,
  which is what the final \<open>else\<close> of both functions receives.
  The child of a node is again a type reference: the datatype is wider than the
  declarations of graphql-js, where the value of a name node is always a string and the
  name of a named type is always a name node.
\<close>

datatype TypeRef =
    Str string
  | NameNode TypeRef
  | NamedTypeNode TypeRef
  | NonNullTypeNode TypeRef
  | ListTypeNode TypeRef
  | OtherNode string

fun reduceTypeName :: "TypeRef \<Rightarrow> string" where
  "reduceTypeName (Str s) = s"
| "reduceTypeName (NonNullTypeNode t) = reduceTypeName t"
| "reduceTypeName (NamedTypeNode n) = reduceTypeName n"
| "reduceTypeName (NameNode v) = reduceTypeName v"
| "reduceTypeName (ListTypeNode t) = reduceTypeName t"
| "reduceTypeName (OtherNode k) = ''UNKNOWN_TYPE_NAME''"

fun reduceListType :: "TypeRef \<Rightarrow> string option" where
  "reduceListType (Str s) = None"
| "reduceListType (NonNullTypeNode t) = reduceListType t"
| "reduceListType (NamedTypeNode n) = None"
| "reduceListType (NameNode v) = None"
| "reduceListType (ListTypeNode t) = Some (reduceTypeName t)"
| "reduceListType (OtherNode k) = None"

text \<open>
  The layers a reference is built from, used to state what "arbitrarily nested" means:
  \<open>wrap ls leaf\<close> puts the layers \<open>ls\<close> (outermost first) around \<open>leaf\<close>.
\<close>

datatype layer = NameLayer | NamedTypeLayer | NonNullLayer | ListLayer

fun wrap :: "layer list \<Rightarrow> TypeRef \<Rightarrow> TypeRef" where
  "wrap [] t = t"
| "wrap (NameLayer # ls) t = NameNode (wrap ls t)"
| "wrap (NamedTypeLayer # ls) t = NamedTypeNode (wrap ls t)"
| "wrap (NonNullLayer # ls) t = NonNullTypeNode (wrap ls t)"
| "wrap (ListLayer # ls) t = ListTypeNode (wrap ls t)"

text \<open>
  The element of a list reference, in the words of the specification: the reference is a
  list, or a non-null wrapper around a list.
\<close>

fun listElement :: "TypeRef \<Rightarrow> TypeRef option" where
  "listElement (ListTypeNode e) = Some e"
| "listElement (NonNullTypeNode (ListTypeNode e)) = Some e"
| "listElement _ = None"

text \<open>
  GraphQL has no type \<open>T!!\<close>: graphql-js declares the field \<open>type\<close> of a
  \<open>NonNullTypeNode\<close> as \<open>NamedTypeNode | ListTypeNode\<close>.
\<close>

fun nonNullOfNonNull :: "TypeRef \<Rightarrow> bool" where
  "nonNullOfNonNull (NonNullTypeNode (NonNullTypeNode t)) = True"
| "nonNullOfNonNull _ = False"


section \<open>Constants (constants.ts)\<close>

text \<open>
  The module \<open>constants\<close> (imported as \<open>c\<close>) is not among the sources. The functions
  below take the constants they read as a parameter: \<open>c.ID_NAME\<close>, \<open>c.ID_TYPE\<close> and
  \<open>c.VARIABLE_NAME\<close> occur in operation.ts.
\<close>

record constants =
  ID_NAME :: string
  ID_TYPE :: string
  VARIABLE_NAME :: string

section \<open>Operation definitions (graphql, operation.ts)\<close>

text \<open>
  The parts of an \<open>OperationDefinitionNode\<close> of graphql-js. A variable definition is
  read through \<open>v.variable.name.value\<close>, \<open>v.type\<close> and \<open>v.defaultValue\<close>; a selection
  through its \<open>kind\<close> and, for a field, \<open>name.value\<close>. Optional fields
  (\<open>name?\<close>, \<open>variableDefinitions?\<close>, \<open>defaultValue?\<close>) are options; a default value
  and a directive are kept as their printed text. Names are ASCII, as the
  GraphQL grammar has them.
\<close>

record VariableDefinitionNode =
  variable :: string
  type :: TypeRef
  defaultValue :: "string option"

datatype SelectionNode =
    FieldNode string "SelectionNode list"
  | FragmentSpreadNode string
  | InlineFragmentNode "SelectionNode list"

datatype OperationTypeNode = query | mutation | subscription

record OperationDefinitionNode =
  operation :: OperationTypeNode
  name :: "string option"
  variableDefinitions :: "VariableDefinitionNode list option"
  directives :: "string list"
  selectionSet :: "SelectionNode list"

datatype SdkChainType = root | parent | child

text \<open>\<open>interface SdkOperationDefinition extends OperationDefinitionNode\<close>\<close>

record SdkOperationDefinition = OperationDefinitionNode +
  chainType :: SdkChainType
  chainKey :: "string option"

text \<open>\<open>interface SdkOperation\<close> of visitor.ts\<close>

record SdkOperation =
  node :: SdkOperationDefinition
  documentVariableName :: string
  operationType :: string
  operationResultType :: string
  operationVariablesTypes :: string

subsection \<open>JavaScript values\<close>

text \<open>A \<open>string | undefined\<close> in a condition: undefined and the empty string are falsy.\<close>

fun truthy :: "string option \<Rightarrow> bool" where
  "truthy None = False"
| "truthy (Some s) = (s \<noteq> [])"

text \<open>A \<open>string | undefined\<close> inside a template literal.\<close>

fun interpolate :: "string option \<Rightarrow> string" where
  "interpolate None = ''undefined''"
| "interpolate (Some s) = s"

text \<open>\<open>s.startsWith(p)\<close>: a comparison of code units, hence case-sensitive.\<close>

definition startsWith :: "string \<Rightarrow> string \<Rightarrow> bool" where
  "startsWith s p = prefix p s"

text \<open>
  \<open>toLowerCase\<close> and \<open>toUpperCase\<close> of one character, on ASCII: only \<open>A\<close> to \<open>Z\<close>
  and \<open>a\<close> to \<open>z\<close> are changed. JavaScript also folds the cased letters beyond ASCII,
  which a GraphQL name cannot hold.
\<close>

definition toLowerCase :: "char \<Rightarrow> char" where
  "toLowerCase ch =
     (if 65 \<le> (of_char ch :: nat) \<and> (of_char ch :: nat) \<le> 90
      then char_of ((of_char ch :: nat) + 32) else ch)"


text \<open>\<open>lowerFirst\<close> of utils.ts; an absent or empty string gives the empty string.\<close>

fun lowerFirst :: "string \<Rightarrow> string" where
  "lowerFirst [] = []"
| "lowerFirst (ch # rest) = toLowerCase ch # rest"

subsection \<open>Variables (variable.ts)\<close>

text \<open>The declared variables, \<open>o.variableDefinitions ?? []\<close>.\<close>

definition declaredVariables :: "'a OperationDefinitionNode_scheme \<Rightarrow> VariableDefinitionNode list" where
  "declaredVariables o' = (case variableDefinitions o' of None \<Rightarrow> [] | Some vs \<Rightarrow> vs)"

text \<open>
  Modelled from the spec: \<open>isIdVariable\<close> of variable.ts, which is not among the
  sources. "A variable qualifies as an id-variable iff its name equals the conventional id
  name AND its reduced type name equals the conventional id scalar type name." The
  specification lists one id name and one id type name among the constants; they are
  \<open>c.ID_NAME\<close> and \<open>c.ID_TYPE\<close>.
\<close>

definition isIdVariable :: "constants \<Rightarrow> VariableDefinitionNode \<Rightarrow> bool" where
  "isIdVariable c v = (variable v = ID_NAME c \<and> reduceTypeName (type v) = ID_TYPE c)"

text \<open>
  Modelled from the spec: \<open>hasVariable\<close> of variable.ts, which is not among the
  sources. "True iff some declared variable has that name."
\<close>

definition hasVariable :: "SdkOperation \<Rightarrow> string \<Rightarrow> bool" where
  "hasVariable o' n = list_ex (\<lambda>v. variable v = n) (declaredVariables (node o'))"

text \<open>
  Modelled from the spec: \<open>hasOtherVariable\<close> of variable.ts, which is not among the
  sources. "True iff some declared variable has a different name."
\<close>

definition hasOtherVariable :: "SdkOperation \<Rightarrow> string \<Rightarrow> bool" where
  "hasOtherVariable o' n = list_ex (\<lambda>v. variable v \<noteq> n) (declaredVariables (node o'))"

text \<open>
  Modelled from the spec: \<open>hasOptionalVariable\<close> of variable.ts, which is not among the
  sources. "True iff any declared variable is nullable (has no non-null wrapper) OR has a
  default value."
\<close>

fun isNonNull :: "TypeRef \<Rightarrow> bool" where
  "isNonNull (NonNullTypeNode t) = True"
| "isNonNull _ = False"

definition hasOptionalVariable :: "SdkOperation \<Rightarrow> bool" where
  "hasOptionalVariable o' =
     list_ex (\<lambda>v. \<not> isNonNull (type v) \<or> defaultValue v \<noteq> None) (declaredVariables (node o'))"

subsection \<open>Classification (operation.ts)\<close>

fun isField :: "SelectionNode \<Rightarrow> bool" where
  "isField (FieldNode n sub) = True"
| "isField _ = False"

definition getFirstFieldName :: "'a OperationDefinitionNode_scheme \<Rightarrow> string option" where
  "getFirstFieldName operation' =
     (case find isField (selectionSet operation') of
        Some (FieldNode n sub) \<Rightarrow> Some n
      | _ \<Rightarrow> None)"

definition hasIdVariable :: "constants \<Rightarrow> 'a OperationDefinitionNode_scheme \<Rightarrow> bool" where
  "hasIdVariable c o' = list_ex (isIdVariable c) (declaredVariables o')"

definition getOperationName :: "'a OperationDefinitionNode_scheme \<Rightarrow> string option" where
  "getOperationName o' = name o'"

definition isParentOperation :: "constants \<Rightarrow> 'a OperationDefinitionNode_scheme \<Rightarrow> bool" where
  "isParentOperation c o' = (hasIdVariable c o' \<and> getOperationName o' = getFirstFieldName o')"

definition isChildOperation :: "constants \<Rightarrow> 'a OperationDefinitionNode_scheme \<Rightarrow> bool" where
  "isChildOperation c o' =
     (hasIdVariable c o' \<and>
      (case getOperationName o' of
         None \<Rightarrow> False
       | Some n \<Rightarrow> startsWith n (case getFirstFieldName o' of None \<Rightarrow> [] | Some f \<Rightarrow> f)))"

text \<open>
  The object spread \<open>{...operation, chainType: t, chainKey: k}\<close> is the extension of the
  record by the two new fields; the root branch sets no \<open>chainKey\<close>.
\<close>

definition processSdkOperation :: "constants \<Rightarrow> OperationDefinitionNode \<Rightarrow> SdkOperationDefinition" where
  "processSdkOperation c operation' =
     (if isParentOperation c operation' then
        OperationDefinitionNode.extend operation'
          (SdkOperationDefinition.fields parent (getFirstFieldName operation'))
      else if isChildOperation c operation' then
        OperationDefinitionNode.extend operation'
          (SdkOperationDefinition.fields child (getFirstFieldName operation'))
      else
        OperationDefinitionNode.extend operation'
          (SdkOperationDefinition.fields root None))"


subsection \<open>Arguments of a generated method (operation.ts)\<close>

text \<open>
  The \<open>ArgDefinition\<close> objects that \<open>getOperationArgs\<close> builds have the fields
  \<open>name\<close>, \<open>optional\<close>, \<open>type\<close> and \<open>description\<close>; the first and the third are
  written \<open>argName\<close> and \<open>argType\<close> here, apart from the fields of the nodes above.
\<close>

record ArgDefinition =
  argName :: string
  optional :: bool
  argType :: string
  description :: string

definition getChainParentKey :: "SdkOperation \<Rightarrow> string option" where
  "getChainParentKey o' = (if chainType (node o') = parent then chainKey (node o') else None)"

definition getChainChildKey :: "SdkOperation \<Rightarrow> string option" where
  "getChainChildKey o' = (if chainType (node o') = child then chainKey (node o') else None)"

text \<open>The three local constants of \<open>getOperationArgs\<close>.\<close>

definition idArg :: "constants \<Rightarrow> SdkOperation \<Rightarrow> ArgDefinition" where
  "idArg c o' =
     \<lparr>argName = ID_NAME c, optional = False, argType = ID_TYPE c,
      description = ID_NAME c @ '' to pass into the '' @ operationResultType o'\<rparr>"

definition variablesArg :: "constants \<Rightarrow> string \<Rightarrow> SdkOperation \<Rightarrow> ArgDefinition" where
  "variablesArg c variableType o' =
     \<lparr>argName = VARIABLE_NAME c, optional = hasOptionalVariable o', argType = variableType,
      description = ''variables to pass into the '' @ operationResultType o'\<rparr>"

definition variablesWithoutIdArg :: "constants \<Rightarrow> string \<Rightarrow> SdkOperation \<Rightarrow> ArgDefinition" where
  "variablesWithoutIdArg c variableType o' =
     (variablesArg c variableType o')
       \<lparr>argType := ''Omit<'' @ variableType @ '', '' @ [CHR 0x27] @ ID_NAME c @ [CHR 0x27] @ ''>'',
        description := ''variables without '' @ interpolate (getChainChildKey o') @ '' ''
           @ ID_NAME c @ '' to pass into the '' @ operationResultType o'\<rparr>"

text \<open>
  \<open>printNamespacedType\<close> of print.ts is not among the sources and is a parameter, with
  the plugin configuration it is applied to.
\<close>

definition getOperationArgs ::
  "constants \<Rightarrow> ('cfg \<Rightarrow> string \<Rightarrow> string) \<Rightarrow> SdkOperation \<Rightarrow> 'cfg \<Rightarrow> ArgDefinition list" where
  "getOperationArgs c printNamespacedType o' config =
     (let variableType = printNamespacedType config (operationVariablesTypes o') in
      if hasVariable o' (ID_NAME c) then
        (let chainChildKey = getChainChildKey o' in
         if hasOtherVariable o' (ID_NAME c) then
           (if truthy chainChildKey then [variablesWithoutIdArg c variableType o']
            else [idArg c o', variablesWithoutIdArg c variableType o'])
         else
           (if truthy chainChildKey then [] else [idArg c o']))
      else [variablesArg c variableType o'])"

definition getRequesterArgs :: "constants \<Rightarrow> SdkOperation \<Rightarrow> string" where
  "getRequesterArgs c o' =
     (if hasVariable o' (ID_NAME c) then
        (if hasOtherVariable o' (ID_NAME c)
         then ''{'' @ ID_NAME c @ '', ...'' @ VARIABLE_NAME c @ ''}''
         else ''{'' @ ID_NAME c @ ''}'')
      else VARIABLE_NAME c)"

subsection \<open>Name of a generated method (operation.ts)\<close>




subsection \<open>The specification's words\<close>

text \<open>
  "Starts with the first field's name as a case-insensitive prefix", for the claim that the
  child rule ignores case.
\<close>

definition startsWithIgnoreCase :: "string \<Rightarrow> string \<Rightarrow> bool" where
  "startsWithIgnoreCase s p = prefix (map toLowerCase p) (map toLowerCase s)"


subsection \<open>Sample inputs\<close>

text \<open>
  Constants for the concrete evaluations below: the id name \<open>id\<close> and the id type
  \<open>ID\<close> of the specification's examples, and \<open>variables\<close> for the variables object.
\<close>

definition c0 :: constants where
  "c0 = \<lparr>ID_NAME = ''id'', ID_TYPE = ''ID'', VARIABLE_NAME = ''variables''\<rparr>"

definition idVar :: VariableDefinitionNode where
  "idVar = \<lparr>variable = ''id'',
            type = NonNullTypeNode (NamedTypeNode (NameNode (Str ''ID''))),
            defaultValue = None\<rparr>"

definition mkOperation ::
  "string option \<Rightarrow> VariableDefinitionNode list \<Rightarrow> SelectionNode list \<Rightarrow> OperationDefinitionNode" where
  "mkOperation n vs sels =
     \<lparr>operation = query, name = n, variableDefinitions = Some vs, directives = [],
      selectionSet = sels\<rparr>"

definition mkSdkOperation :: "OperationDefinitionNode \<Rightarrow> SdkOperation" where
  "mkSdkOperation operation' =
     \<lparr>node = processSdkOperation c0 operation', documentVariableName = ''Doc'',
      operationType = ''Query'', operationResultType = ''Result'',
      operationVariablesTypes = ''Variables''\<rparr>"


text \<open>
  \<open>query team($id: ID!) { team(id: $id) { id name } }\<close>,
  \<open>query teamIssues($id: ID!) { team(id: $id) { issues { nodes { id } } } }\<close>,
  the same operation named \<open>TeamIssues\<close>, and one with a second variable.
\<close>

definition opTeam :: OperationDefinitionNode where
  "opTeam = mkOperation (Some ''team'') [idVar]
     [FieldNode ''team'' [FieldNode ''id'' [], FieldNode ''name'' []]]"

definition opTeamIssues :: OperationDefinitionNode where
  "opTeamIssues = mkOperation (Some ''teamIssues'') [idVar]
     [FieldNode ''team'' [FieldNode ''issues'' [FieldNode ''nodes'' [FieldNode ''id'' []]]]]"

definition opUpperTeamIssues :: OperationDefinitionNode where
  "opUpperTeamIssues = mkOperation (Some ''TeamIssues'') [idVar]
     [FieldNode ''team'' [FieldNode ''issues'' [FieldNode ''nodes'' [FieldNode ''id'' []]]]]"

definition firstVar :: VariableDefinitionNode where
  "firstVar = \<lparr>variable = ''first'', type = NamedTypeNode (NameNode (Str ''Int'')),
              defaultValue = None\<rparr>"

definition opTeamIssuesFirst :: OperationDefinitionNode where
  "opTeamIssuesFirst = mkOperation (Some ''teamIssues'') [idVar, firstVar]
     [FieldNode ''team'' [FieldNode ''issues'' [FieldNode ''nodes'' [FieldNode ''id'' []]]]]"

text \<open>\<open>query viewer { viewer { id } }\<close>: no variable.\<close>

definition opViewer :: OperationDefinitionNode where
  "opViewer = mkOperation (Some ''viewer'') [] [FieldNode ''viewer'' [FieldNode ''id'' []]]"

text \<open>
  \<open>query foo($id: ID!) { ...QueryFields }\<close>: an id-variable, and a selection set
  whose only selection is a fragment spread, so that there is no first field.
\<close>

definition opNoField :: OperationDefinitionNode where
  "opNoField = mkOperation (Some ''foo'') [idVar] [FragmentSpreadNode ''QueryFields'']"


text \<open>
  \<open>query count($id: Int!) { count(id: $id) }\<close>: a variable named \<open>id\<close> whose type is
  not the id scalar.
\<close>

definition intIdVar :: VariableDefinitionNode where
  "intIdVar = \<lparr>variable = ''id'',
               type = NonNullTypeNode (NamedTypeNode (NameNode (Str ''Int''))),
               defaultValue = None\<rparr>"

definition opIntId :: OperationDefinitionNode where
  "opIntId = mkOperation (Some ''count'') [intIdVar] [FieldNode ''count'' []]"

text \<open>A stand-in for \<open>printNamespacedType\<close> in evaluations: no namespace.\<close>

definition plainType :: "unit \<Rightarrow> string \<Rightarrow> string" where
  "plainType config t = t"


section \<open>The type-name reducer\<close>

lemma reduceTypeName_wrap: "reduceTypeName (wrap ls t) = reduceTypeName t"
  by (induction ls t rule: wrap.induct) simp_all

lemma TypeRef_layers:
  "\<exists>ls. (\<exists>s. t = wrap ls (Str s)) \<or> (\<exists>k. t = wrap ls (OtherNode k))"
proof (induction t)
  case (Str s)
  have "Str s = wrap [] (Str s)" by simp
  then show ?case by blast
next
  case (NameNode t)
  then obtain ls where "(\<exists>s. t = wrap ls (Str s)) \<or> (\<exists>k. t = wrap ls (OtherNode k))" by blast
  then have "(\<exists>s. NameNode t = wrap (NameLayer # ls) (Str s))
      \<or> (\<exists>k. NameNode t = wrap (NameLayer # ls) (OtherNode k))" by auto
  then show ?case by blast
next
  case (NamedTypeNode t)
  then obtain ls where "(\<exists>s. t = wrap ls (Str s)) \<or> (\<exists>k. t = wrap ls (OtherNode k))" by blast
  then have "(\<exists>s. NamedTypeNode t = wrap (NamedTypeLayer # ls) (Str s))
      \<or> (\<exists>k. NamedTypeNode t = wrap (NamedTypeLayer # ls) (OtherNode k))" by auto
  then show ?case by blast
next
  case (NonNullTypeNode t)
  then obtain ls where "(\<exists>s. t = wrap ls (Str s)) \<or> (\<exists>k. t = wrap ls (OtherNode k))" by blast
  then have "(\<exists>s. NonNullTypeNode t = wrap (NonNullLayer # ls) (Str s))
      \<or> (\<exists>k. NonNullTypeNode t = wrap (NonNullLayer # ls) (OtherNode k))" by auto
  then show ?case by blast
next
  case (ListTypeNode t)
  then obtain ls where "(\<exists>s. t = wrap ls (Str s)) \<or> (\<exists>k. t = wrap ls (OtherNode k))" by blast
  then have "(\<exists>s. ListTypeNode t = wrap (ListLayer # ls) (Str s))
      \<or> (\<exists>k. ListTypeNode t = wrap (ListLayer # ls) (OtherNode k))" by auto
  then show ?case by blast
next
  case (OtherNode k)
  have "OtherNode k = wrap [] (OtherNode k)" by simp
  then show ?case by blast
qed

text \<open>
  Claim C8. Whatever layers of name, named-type, non-null and list nodes are put around
  it, \<open>reduceTypeName\<close> returns a string leaf as it is, and the fixed placeholder
  \<open>UNKNOWN_TYPE_NAME\<close> for a leaf of an unrecognised kind; and every type reference is
  such layers around one of these two leaves, so that the function has one of these
  results on every input. It is defined by structural recursion, hence total.
\<close>

theorem reduceTypeName_innermost:
  "reduceTypeName (wrap ls (Str s)) = s
   \<and> reduceTypeName (wrap ls (OtherNode k)) = ''UNKNOWN_TYPE_NAME''
   \<and> (\<exists>ls'. (\<exists>s'. t = wrap ls' (Str s') \<and> reduceTypeName t = s')
        \<or> (\<exists>k'. t = wrap ls' (OtherNode k') \<and> reduceTypeName t = ''UNKNOWN_TYPE_NAME''))"
proof -
  from TypeRef_layers [of t] obtain ls'
    where "(\<exists>s'. t = wrap ls' (Str s')) \<or> (\<exists>k'. t = wrap ls' (OtherNode k'))" by blast
  then have "(\<exists>s'. t = wrap ls' (Str s') \<and> reduceTypeName t = s')
      \<or> (\<exists>k'. t = wrap ls' (OtherNode k') \<and> reduceTypeName t = ''UNKNOWN_TYPE_NAME'')"
    by (auto simp: reduceTypeName_wrap)
  then have "\<exists>ls'. (\<exists>s'. t = wrap ls' (Str s') \<and> reduceTypeName t = s')
      \<or> (\<exists>k'. t = wrap ls' (OtherNode k') \<and> reduceTypeName t = ''UNKNOWN_TYPE_NAME'')"
    by blast
  then show ?thesis by (simp add: reduceTypeName_wrap)
qed

text \<open>\<open>[Int!]!\<close> reduces to \<open>Int\<close>, and a node of kind \<open>Foo\<close> inside a list to the placeholder.\<close>

theorem reduceTypeName_innermost_witness:
  "reduceTypeName
     (NonNullTypeNode (ListTypeNode (NonNullTypeNode (NamedTypeNode (NameNode (Str ''Int''))))))
     = ''Int''
   \<and> reduceTypeName (ListTypeNode (OtherNode ''Foo'')) = ''UNKNOWN_TYPE_NAME''"
  using reduceTypeName_innermost
    [where ls = "[NonNullLayer, ListLayer, NonNullLayer, NamedTypeLayer, NameLayer]"
       and s = "''Int''"]
    reduceTypeName_innermost [where ls = "[ListLayer]" and k = "''Foo''"]
  by simp

text \<open>
  Claim C9. On a reference that is not a non-null wrapper directly around another
  non-null wrapper (GraphQL has no such type), \<open>reduceListType\<close> returns the reduced
  name of the element exactly when the reference is a list or a non-null wrapper around a
  list, and nothing otherwise; a bare named type gives nothing.
\<close>

theorem reduceListType_list_or_nonnull_list:
  "\<not> nonNullOfNonNull t \<Longrightarrow> reduceListType t = map_option reduceTypeName (listElement t)"
  by (induction t rule: nonNullOfNonNull.induct) simp_all

text \<open>\<open>[Int!]!\<close> has the element name \<open>Int\<close>; the bare \<open>Int\<close> has none.\<close>

theorem reduceListType_list_or_nonnull_list_witness:
  "\<not> nonNullOfNonNull
       (NonNullTypeNode (ListTypeNode (NonNullTypeNode (NamedTypeNode (NameNode (Str ''Int''))))))
   \<and> reduceListType
       (NonNullTypeNode (ListTypeNode (NonNullTypeNode (NamedTypeNode (NameNode (Str ''Int''))))))
       = Some ''Int''
   \<and> \<not> nonNullOfNonNull (NamedTypeNode (NameNode (Str ''Int'')))
   \<and> reduceListType (NamedTypeNode (NameNode (Str ''Int''))) = None"
proof -
  let ?t = "NonNullTypeNode (ListTypeNode (NonNullTypeNode (NamedTypeNode (NameNode (Str ''Int'')))))"
  let ?u = "NamedTypeNode (NameNode (Str ''Int''))"
  have h: "\<not> nonNullOfNonNull ?t" by simp
  have g: "\<not> nonNullOfNonNull ?u" by simp
  from reduceListType_list_or_nonnull_list [OF h] have a: "reduceListType ?t = Some ''Int''" by simp
  from reduceListType_list_or_nonnull_list [OF g] have b: "reduceListType ?u = None" by simp
  from h g a b show ?thesis by blast
qed

text \<open>
  Without the restriction the function is still determined: any number of non-null
  wrappers is removed before the list is looked for.
\<close>

lemma reduceListType_nested_nonnull:
  "reduceListType (NonNullTypeNode (NonNullTypeNode (ListTypeNode e))) = Some (reduceTypeName e)"
  by simp

section \<open>The role classifier\<close>

lemma chainType_processSdkOperation:
  "chainType (processSdkOperation c op) =
     (if isParentOperation c op then parent else if isChildOperation c op then child else root)"
  by (simp add: processSdkOperation_def OperationDefinitionNode.defs SdkOperationDefinition.defs)

lemma chainKey_processSdkOperation:
  "chainKey (processSdkOperation c op) =
     (if isParentOperation c op \<or> isChildOperation c op then getFirstFieldName op else None)"
  by (simp add: processSdkOperation_def OperationDefinitionNode.defs SdkOperationDefinition.defs)

text \<open>
  Claim C1. The role is \<open>parent\<close> and the chain key is the name of the first field
  selection exactly when the operation has an id-variable and its declared name is equal
  to the name of its first field selection. Both names are read as the code reads them,
  \<open>o.name?.value\<close> and \<open>firstField?.name?.value\<close>, and compared with \<open>===\<close>.
\<close>

theorem processSdkOperation_parent_iff:
  "(chainType (processSdkOperation c operation') = parent
      \<and> chainKey (processSdkOperation c operation') = getFirstFieldName operation')
   \<longleftrightarrow> (hasIdVariable c operation' \<and> getOperationName operation' = getFirstFieldName operation')"
  by (auto simp: chainType_processSdkOperation chainKey_processSdkOperation isParentOperation_def)

text \<open>The operation \<open>team\<close> selecting \<open>team\<close> is a parent of chain key \<open>team\<close>.\<close>

theorem processSdkOperation_parent_iff_witness:
  "hasIdVariable c0 opTeam
   \<and> getOperationName opTeam = getFirstFieldName opTeam
   \<and> getFirstFieldName opTeam = Some ''team''
   \<and> chainType (processSdkOperation c0 opTeam) = parent
   \<and> chainKey (processSdkOperation c0 opTeam) = Some ''team''"
proof -
  have h: "hasIdVariable c0 opTeam \<and> getOperationName opTeam = getFirstFieldName opTeam"
    by code_simp
  have f: "getFirstFieldName opTeam = Some ''team''" by code_simp
  from h processSdkOperation_parent_iff [of c0 opTeam]
  have "chainType (processSdkOperation c0 opTeam) = parent
     \<and> chainKey (processSdkOperation c0 opTeam) = getFirstFieldName opTeam" by blast
  with h f show ?thesis by simp
qed

text \<open>
  Claim C2, as stated, fails: the child rule compares with \<open>startsWith\<close>, which
  distinguishes case. The operation \<open>TeamIssues\<close> with an id-variable and the first
  field \<open>team\<close> is not a parent, has an id-variable, and its name starts with \<open>team\<close>
  when case is ignored; it is classified \<open>root\<close>, not \<open>child\<close>.
\<close>

theorem child_ignoring_case_counterexample:
  "chainType (processSdkOperation c0 opUpperTeamIssues) \<noteq> parent
   \<and> hasIdVariable c0 opUpperTeamIssues
   \<and> getOperationName opUpperTeamIssues = Some ''TeamIssues''
   \<and> getFirstFieldName opUpperTeamIssues = Some ''team''
   \<and> startsWithIgnoreCase ''TeamIssues'' ''team''
   \<and> chainType (processSdkOperation c0 opUpperTeamIssues) \<noteq> child
   \<and> chainType (processSdkOperation c0 opUpperTeamIssues) = root"
  by code_simp

text \<open>
  Claim C2, amended. For an operation that has a first field selection \<open>f\<close> and is not
  classified \<open>parent\<close>: the role is \<open>child\<close> with chain key \<open>f\<close> exactly when the
  operation has an id-variable and a declared name that starts with \<open>f\<close>, compared
  case-sensitively.
\<close>

theorem processSdkOperation_child_iff:
  assumes "getFirstFieldName operation' = Some f"
    and "chainType (processSdkOperation c operation') \<noteq> parent"
  shows "(chainType (processSdkOperation c operation') = child
            \<and> chainKey (processSdkOperation c operation') = Some f)
         \<longleftrightarrow> (hasIdVariable c operation'
               \<and> (\<exists>n. getOperationName operation' = Some n \<and> startsWith n f))"
  using assms
  by (auto simp: chainType_processSdkOperation chainKey_processSdkOperation isChildOperation_def
      split: if_splits option.splits)

text \<open>The operation \<open>teamIssues\<close> selecting \<open>team\<close> is a child of chain key \<open>team\<close>.\<close>

theorem processSdkOperation_child_iff_witness:
  "getFirstFieldName opTeamIssues = Some ''team''
   \<and> chainType (processSdkOperation c0 opTeamIssues) \<noteq> parent
   \<and> hasIdVariable c0 opTeamIssues
   \<and> getOperationName opTeamIssues = Some ''teamIssues''
   \<and> startsWith ''teamIssues'' ''team''
   \<and> chainType (processSdkOperation c0 opTeamIssues) = child
   \<and> chainKey (processSdkOperation c0 opTeamIssues) = Some ''team''"
proof -
  have f: "getFirstFieldName opTeamIssues = Some ''team''" by code_simp
  have p: "chainType (processSdkOperation c0 opTeamIssues) \<noteq> parent" by code_simp
  have h: "hasIdVariable c0 opTeamIssues" by code_simp
  have n: "getOperationName opTeamIssues = Some ''teamIssues''" by code_simp
  have s: "startsWith ''teamIssues'' ''team''" by code_simp
  from processSdkOperation_child_iff [OF f p] h n s
  have "chainType (processSdkOperation c0 opTeamIssues) = child
     \<and> chainKey (processSdkOperation c0 opTeamIssues) = Some ''team''" by blast
  with f p h n s show ?thesis by blast
qed

text \<open>
  Claim C3 does not hold of the code. An operation with an id-variable, a declared name
  and no field selection at the top level passes the child test, because the absent first
  field name is replaced by the empty string, which every name starts with; its chain key
  is the absent first field name. The interfaces \<open>SdkParentOperation\<close> and
  \<open>SdkChildOperation\<close> of the same file declare \<open>chainKey: string\<close>.
\<close>

theorem processSdkOperation_child_without_chainKey:
  "hasIdVariable c0 opNoField
   \<and> getFirstFieldName opNoField = None
   \<and> chainType (processSdkOperation c0 opNoField) = child
   \<and> chainKey (processSdkOperation c0 opNoField) = None"
  by code_simp

text \<open>
  Where the operation has a first field selection, the chain key is present exactly for
  the roles other than \<open>root\<close>; and a root never has one.
\<close>

lemma chainKey_present_with_first_field:
  "getFirstFieldName op = Some f \<Longrightarrow>
     (chainKey (processSdkOperation c op) \<noteq> None) = (chainType (processSdkOperation c op) \<noteq> root)"
  by (simp add: chainType_processSdkOperation chainKey_processSdkOperation)

lemma chainKey_root_absent:
  "chainType (processSdkOperation c op) = root \<Longrightarrow> chainKey (processSdkOperation c op) = None"
  by (simp add: chainType_processSdkOperation chainKey_processSdkOperation split: if_splits)

text \<open>
  Claim C4. An operation that satisfies the parent test and the child test is classified
  \<open>parent\<close>, not \<open>child\<close>: the parent test comes first.
\<close>

theorem parent_before_child:
  "isParentOperation c operation' \<Longrightarrow> isChildOperation c operation' \<Longrightarrow>
     chainType (processSdkOperation c operation') = parent
     \<and> chainType (processSdkOperation c operation') \<noteq> child"
  by (simp add: chainType_processSdkOperation)

text \<open>The operation \<open>team\<close> selecting \<open>team\<close> passes both tests.\<close>

theorem parent_before_child_witness:
  "isParentOperation c0 opTeam \<and> isChildOperation c0 opTeam
   \<and> chainType (processSdkOperation c0 opTeam) = parent
   \<and> chainType (processSdkOperation c0 opTeam) \<noteq> child"
proof -
  have p: "isParentOperation c0 opTeam" by code_simp
  have ch: "isChildOperation c0 opTeam" by code_simp
  from parent_before_child [OF p ch] p ch show ?thesis by blast
qed

text \<open>
  Claim C10. The result of \<open>processSdkOperation\<close> restricted to the fields of an
  operation definition is the input: every field is copied. What is added is the role
  and, for a role other than \<open>root\<close>, the chain key read from the first field selection;
  a root gets no chain key. The function reads its argument and builds a new object; it
  assigns to nothing.
\<close>

theorem processSdkOperation_frame:
  "OperationDefinitionNode.truncate (processSdkOperation c operation') = operation'
   \<and> operation (processSdkOperation c operation') = operation operation'
   \<and> name (processSdkOperation c operation') = name operation'
   \<and> variableDefinitions (processSdkOperation c operation') = variableDefinitions operation'
   \<and> directives (processSdkOperation c operation') = directives operation'
   \<and> selectionSet (processSdkOperation c operation') = selectionSet operation'
   \<and> chainKey (processSdkOperation c operation') =
       (if chainType (processSdkOperation c operation') = root then None
        else getFirstFieldName operation')"
  by (simp add: processSdkOperation_def OperationDefinitionNode.defs SdkOperationDefinition.defs)

text \<open>A child and a root, with their fields kept.\<close>

theorem processSdkOperation_frame_witness:
  "OperationDefinitionNode.truncate (processSdkOperation c0 opTeamIssues) = opTeamIssues
   \<and> chainType (processSdkOperation c0 opTeamIssues) = child
   \<and> chainKey (processSdkOperation c0 opTeamIssues) = Some ''team''
   \<and> OperationDefinitionNode.truncate (processSdkOperation c0 opViewer) = opViewer
   \<and> chainType (processSdkOperation c0 opViewer) = root
   \<and> chainKey (processSdkOperation c0 opViewer) = None"
proof -
  have a: "chainType (processSdkOperation c0 opTeamIssues) = child" by code_simp
  have f: "getFirstFieldName opTeamIssues = Some ''team''" by code_simp
  have b: "chainType (processSdkOperation c0 opViewer) = root" by code_simp
  from processSdkOperation_frame [of c0 opTeamIssues] a f
  have a': "OperationDefinitionNode.truncate (processSdkOperation c0 opTeamIssues) = opTeamIssues
     \<and> chainKey (processSdkOperation c0 opTeamIssues) = Some ''team''" by simp
  from processSdkOperation_frame [of c0 opViewer] b
  have b': "OperationDefinitionNode.truncate (processSdkOperation c0 opViewer) = opViewer
     \<and> chainKey (processSdkOperation c0 opViewer) = None" by simp
  from a a' b b' show ?thesis by blast
qed

section \<open>Arguments\<close>

lemma hasIdVariable_hasVariable:
  "hasIdVariable c (node o') \<Longrightarrow> hasVariable o' (ID_NAME c)"
  by (auto simp: hasIdVariable_def hasVariable_def isIdVariable_def list_ex_iff)

text \<open>
  Claim C5, as stated, fails: \<open>getRequesterArgs\<close> asks \<open>hasVariable\<close> whether a
  variable is named \<open>id\<close> and does not look at its type. The operation \<open>count\<close> whose
  only variable is \<open>id: Int!\<close> has no id-variable (the type is not the id scalar), and
  the argument is the object \<open>{id}\<close>, not the variables object.
\<close>

theorem getRequesterArgs_id_of_other_type_counterexample:
  "\<not> hasIdVariable c0 (node (mkSdkOperation opIntId))
   \<and> getRequesterArgs c0 (mkSdkOperation opIntId) = ''{id}''
   \<and> getRequesterArgs c0 (mkSdkOperation opIntId) \<noteq> VARIABLE_NAME c0"
  by code_simp

text \<open>
  Claim C5, amended. The argument of the transport call is the object literal with the
  id first and the spread of the variables after, when the operation declares a variable
  named by the id name and a variable of another name; the object with just the id, when
  every declared variable is named by the id name and there is one; the variables object
  itself, when no declared variable is named by the id name. The type of the variable is
  not looked at; an id-variable is in particular a variable named by the id name.
\<close>

theorem getRequesterArgs_by_name:
  "(hasVariable o' (ID_NAME c) \<and> hasOtherVariable o' (ID_NAME c) \<longrightarrow>
      getRequesterArgs c o' = ''{'' @ ID_NAME c @ '', ...'' @ VARIABLE_NAME c @ ''}'')
   \<and> (hasVariable o' (ID_NAME c) \<and> \<not> hasOtherVariable o' (ID_NAME c) \<longrightarrow>
      getRequesterArgs c o' = ''{'' @ ID_NAME c @ ''}'')
   \<and> (\<not> hasVariable o' (ID_NAME c) \<longrightarrow> getRequesterArgs c o' = VARIABLE_NAME c)
   \<and> (hasIdVariable c (node o') \<longrightarrow> hasVariable o' (ID_NAME c))"
  by (simp add: getRequesterArgs_def hasIdVariable_hasVariable)

text \<open>The three cases, on \<open>teamIssues($id, $first)\<close>, \<open>team($id)\<close> and \<open>viewer\<close>.\<close>

theorem getRequesterArgs_by_name_witness:
  "hasVariable (mkSdkOperation opTeamIssuesFirst) (ID_NAME c0)
   \<and> hasOtherVariable (mkSdkOperation opTeamIssuesFirst) (ID_NAME c0)
   \<and> getRequesterArgs c0 (mkSdkOperation opTeamIssuesFirst) = ''{id, ...variables}''
   \<and> hasVariable (mkSdkOperation opTeam) (ID_NAME c0)
   \<and> \<not> hasOtherVariable (mkSdkOperation opTeam) (ID_NAME c0)
   \<and> getRequesterArgs c0 (mkSdkOperation opTeam) = ''{id}''
   \<and> \<not> hasVariable (mkSdkOperation opViewer) (ID_NAME c0)
   \<and> getRequesterArgs c0 (mkSdkOperation opViewer) = ''variables''"
proof -
  have a: "hasVariable (mkSdkOperation opTeamIssuesFirst) (ID_NAME c0)
     \<and> hasOtherVariable (mkSdkOperation opTeamIssuesFirst) (ID_NAME c0)" by code_simp
  have b: "hasVariable (mkSdkOperation opTeam) (ID_NAME c0)
     \<and> \<not> hasOtherVariable (mkSdkOperation opTeam) (ID_NAME c0)" by code_simp
  have d: "\<not> hasVariable (mkSdkOperation opViewer) (ID_NAME c0)" by code_simp
  have k: "ID_NAME c0 = ''id'' \<and> VARIABLE_NAME c0 = ''variables''" by code_simp
  from a getRequesterArgs_by_name [of "mkSdkOperation opTeamIssuesFirst" c0] k
  have a': "getRequesterArgs c0 (mkSdkOperation opTeamIssuesFirst) = ''{id, ...variables}''"
    by simp
  from b getRequesterArgs_by_name [of "mkSdkOperation opTeam" c0] k
  have b': "getRequesterArgs c0 (mkSdkOperation opTeam) = ''{id}''" by simp
  from d getRequesterArgs_by_name [of "mkSdkOperation opViewer" c0] k
  have d': "getRequesterArgs c0 (mkSdkOperation opViewer) = ''variables''" by simp
  from a b d a' b' d' show ?thesis by blast
qed

text \<open>
  Claim C6, as stated, fails for the same reason: \<open>getOperationArgs\<close> asks
  \<open>hasVariable\<close>. The operation \<open>count\<close> whose only variable is \<open>id: Int!\<close> has no
  id-variable, and the parameter list is the id parameter alone, not the single variables
  parameter.
\<close>

theorem getOperationArgs_id_of_other_type_counterexample:
  "\<not> hasIdVariable c0 (node (mkSdkOperation opIntId))
   \<and> getOperationArgs c0 plainType (mkSdkOperation opIntId) ()
       = [idArg c0 (mkSdkOperation opIntId)]
   \<and> getOperationArgs c0 plainType (mkSdkOperation opIntId) ()
       \<noteq> [variablesArg c0 (plainType () (operationVariablesTypes (mkSdkOperation opIntId)))
            (mkSdkOperation opIntId)]"
  by code_simp

text \<open>
  Claim C6, amended. Take a classified operation whose chain key, if its role is
  \<open>child\<close>, is present and not empty. If it declares a variable named by the id name
  (an id-variable is one) and its role is \<open>root\<close> or \<open>parent\<close>, the parameter list
  begins with the id parameter, followed by the variables parameter when a variable of
  another name exists; if its role is \<open>child\<close>, there is no id parameter, and the list
  is the variables parameter alone when a variable of another name exists, and empty
  otherwise. That variables parameter has the type \<open>Omit<T, 'id'>\<close> of the operation's
  variable type \<open>T\<close>. If no variable is named by the id name, the list is the single
  variables parameter of type \<open>T\<close>.
\<close>

theorem getOperationArgs_by_role:
  assumes "chainType (node o') = child \<Longrightarrow> truthy (chainKey (node o'))"
  shows "getOperationArgs c printNamespacedType o' config =
     (if hasVariable o' (ID_NAME c) then
        (if chainType (node o') = child then
           (if hasOtherVariable o' (ID_NAME c)
            then [variablesWithoutIdArg c (printNamespacedType config (operationVariablesTypes o')) o']
            else [])
         else
           (if hasOtherVariable o' (ID_NAME c)
            then [idArg c o',
                  variablesWithoutIdArg c (printNamespacedType config (operationVariablesTypes o')) o']
            else [idArg c o']))
      else [variablesArg c (printNamespacedType config (operationVariablesTypes o')) o'])
    \<and> argName (idArg c o') = ID_NAME c
    \<and> argName (variablesWithoutIdArg c variableType o') = VARIABLE_NAME c
    \<and> argType (variablesWithoutIdArg c variableType o')
        = ''Omit<'' @ variableType @ '', '' @ [CHR 0x27] @ ID_NAME c @ [CHR 0x27] @ ''>''
    \<and> argType (variablesArg c variableType o') = variableType
    \<and> (hasIdVariable c (node o') \<longrightarrow> hasVariable o' (ID_NAME c))"
  using assms
  by (simp add: getOperationArgs_def getChainChildKey_def idArg_def variablesArg_def
      variablesWithoutIdArg_def hasIdVariable_hasVariable Let_def)

text \<open>
  The child \<open>teamIssues($id: ID!, $first: Int)\<close> of chain key \<open>team\<close> takes the
  variables without the id, and no id parameter.
\<close>

theorem getOperationArgs_by_role_witness:
  "chainType (node (mkSdkOperation opTeamIssuesFirst)) = child
   \<and> truthy (chainKey (node (mkSdkOperation opTeamIssuesFirst)))
   \<and> hasIdVariable c0 (node (mkSdkOperation opTeamIssuesFirst))
   \<and> hasOtherVariable (mkSdkOperation opTeamIssuesFirst) (ID_NAME c0)
   \<and> getOperationArgs c0 plainType (mkSdkOperation opTeamIssuesFirst) ()
       = [\<lparr>argName = ''variables'', optional = True,
           argType = ''Omit<Variables, '' @ [CHR 0x27] @ ''id'' @ [CHR 0x27] @ ''>'',
           description = ''variables without team id to pass into the Result''\<rparr>]"
proof -
  let ?o = "mkSdkOperation opTeamIssuesFirst"
  have r: "chainType (node ?o) = child" by code_simp
  have t: "truthy (chainKey (node ?o))" by code_simp
  have i: "hasIdVariable c0 (node ?o)" by code_simp
  have v: "hasOtherVariable ?o (ID_NAME c0)" by code_simp
  have e: "variablesWithoutIdArg c0 (plainType () (operationVariablesTypes ?o)) ?o
       = \<lparr>argName = ''variables'', optional = True,
           argType = ''Omit<Variables, '' @ [CHR 0x27] @ ''id'' @ [CHR 0x27] @ ''>'',
           description = ''variables without team id to pass into the Result''\<rparr>"
    by code_simp
  from getOperationArgs_by_role [of ?o c0 plainType "()"] t r i v
  have "getOperationArgs c0 plainType ?o ()
      = [variablesWithoutIdArg c0 (plainType () (operationVariablesTypes ?o)) ?o]"
    by simp
  with e r t i v show ?thesis by simp
qed

text \<open>
  A classified child has a chain key that is present and not empty whenever the operation
  has a first field selection of a non-empty name, as every GraphQL field has.
\<close>

lemma classified_child_has_key:
  "getFirstFieldName op = Some f \<Longrightarrow> f \<noteq> [] \<Longrightarrow>
     chainType (processSdkOperation c op) = child \<Longrightarrow>
     truthy (chainKey (processSdkOperation c op))"
  by (simp add: chainType_processSdkOperation chainKey_processSdkOperation split: if_splits)

section \<open>Method names\<close>


lemma of_char_toLowerCase:
  "(of_char (toLowerCase ch) :: nat) =
     (if 65 \<le> (of_char ch :: nat) \<and> (of_char ch :: nat) \<le> 90 then of_char ch + 32 else of_char ch)"
  by (auto simp: toLowerCase_def)





text \<open>No string with its first character in lower case is \<open>Foo\<close>.\<close>

lemma toLowerCase_not_upper_F: "toLowerCase ch \<noteq> CHR ''F''"
proof
  assume a: "toLowerCase ch = CHR ''F''"
  then have "(of_char (toLowerCase ch) :: nat) = of_char (CHR ''F'')" by simp
  then have "(if 65 \<le> (of_char ch :: nat) \<and> (of_char ch :: nat) \<le> 90
              then of_char ch + 32 else of_char ch) = (70 :: nat)"
    by (simp add: of_char_toLowerCase)
  then show False by (simp split: if_splits)
qed

lemma lowerFirst_not_Foo: "lowerFirst s \<noteq> ''Foo''"
  by (cases s) (simp_all add: toLowerCase_not_upper_F)




end
